theory Spec2Isabelle
  imports Main "HOL-Library.Sublist"
begin

section \<open>The YOLOv7 detector front-end (object\_detection\_gui.py)\<close>

text \<open>
  A shallow embedding of the class \<open>YOLOv7GUI\<close>. The widgets the methods read and write
  are fields of a record that every method takes and returns; message boxes and the start
  of the worker thread are returned as a list of effects in the order the method performs
  them; the calls the worker hands to the main loop with \<open>root.after(0, ...)\<close> are
  returned as a list of callbacks in the order they are scheduled. The filesystem, the
  child process, Pillow and the geometry of the widgets are parameters.
\<close>

subsection \<open>Python strings and paths\<close>

type_synonym path = string

text \<open>Truth value of an attribute that is \<open>None\<close> or a \<open>str\<close>.\<close>

definition truthy :: "string option \<Rightarrow> bool" where
  "truthy p = (case p of None \<Rightarrow> False | Some s \<Rightarrow> s \<noteq> [])"

text \<open>
  \<open>os.path\<close> as \<open>posixpath\<close>: \<open>join\<close> restarts at a component that begins with the
  separator and inserts a separator unless the path so far is empty or ends with one;
  \<open>basename\<close> is what follows the last separator.
\<close>

definition join2 :: "path \<Rightarrow> path \<Rightarrow> path" where
  "join2 a b =
     (if b \<noteq> [] \<and> hd b = CHR ''/'' then b
      else if a = [] \<or> last a = CHR ''/'' then a @ b
      else a @ ''/'' @ b)"

definition path_join :: "path \<Rightarrow> path list \<Rightarrow> path" where
  "path_join a ps = foldl join2 a ps"

definition basename :: "path \<Rightarrow> path" where
  "basename p = rev (takeWhile (\<lambda>c. c \<noteq> CHR ''/'') (rev p))"

text \<open>\<open>str(n)\<close> for an \<open>int\<close>: decimal digits, a minus sign when negative.\<close>

fun digits10 :: "nat \<Rightarrow> string" where
  "digits10 n =
     (if n < 10 then [''0123456789'' ! n]
      else digits10 (n div 10) @ [''0123456789'' ! (n mod 10)])"

definition str_int :: "int \<Rightarrow> string" where
  "str_int i = (if i < 0 then ''-'' @ digits10 (nat (- i)) else digits10 (nat i))"

text \<open>
  \<open>str.splitlines()\<close>: a line ends at a line boundary, \<open>\r\n\<close> counts as one boundary,
  and a boundary at the very end opens no further line. The boundaries within the 8-bit
  \<open>char\<close> are LF, VT, FF, CR, FS, GS, RS and NEL.
\<close>

definition is_linebreak :: "char \<Rightarrow> bool" where
  "is_linebreak c =
     (c \<in> {CHR 0x0A, CHR 0x0B, CHR 0x0C, CHR 0x0D, CHR 0x1C, CHR 0x1D, CHR 0x1E, CHR 0x85})"

fun splitlines_from :: "string \<Rightarrow> string \<Rightarrow> string list" where
  "splitlines_from cur [] = (if cur = [] then [] else [cur])"
| "splitlines_from cur [c] = (if is_linebreak c then [cur] else [cur @ [c]])"
| "splitlines_from cur (c # d # cs) =
     (if c = CHR 0x0D \<and> d = CHR 0x0A then cur # splitlines_from [] cs
      else if is_linebreak c then cur # splitlines_from [] (d # cs)
      else splitlines_from (cur @ [c]) (d # cs))"

definition splitlines :: "string \<Rightarrow> string list" where
  "splitlines s = splitlines_from [] s"

text \<open>The slice \<open>xs[-n:]\<close> and \<open>sep.join(xs)\<close>.\<close>

definition last_n :: "nat \<Rightarrow> 'a list \<Rightarrow> 'a list" where
  "last_n n xs = drop (length xs - n) xs"

fun str_join :: "string \<Rightarrow> string list \<Rightarrow> string" where
  "str_join sep [] = []"
| "str_join sep [x] = x"
| "str_join sep (x # y # ys) = x @ sep @ str_join sep (y # ys)"

definition quote :: string where
  "quote = [CHR 0x27]"

subsection \<open>Exceptions\<close>

text \<open>
  The handlers of the program tell \<open>FileNotFoundError\<close> from every other \<open>Exception\<close>;
  of the latter they print the type name (\<open>type(e).__name__\<close>) and the text, of the
  former the text.
\<close>

datatype exn = FileNotFoundError string | OtherException string string

fun exn_str :: "exn \<Rightarrow> string" where
  "exn_str (FileNotFoundError m) = m"
| "exn_str (OtherException t m) = m"

subsection \<open>The filesystem\<close>

text \<open>
  A snapshot of the filesystem: a path denotes nothing, a file with its modification
  time, or a directory with its modification time and the names it lists. Modification
  times are only compared.
\<close>

datatype 't node = File 't | Dir 't "string list"

type_synonym 't filesystem = "path \<Rightarrow> 't node option"

definition exists_path :: "'t filesystem \<Rightarrow> path \<Rightarrow> bool" where
  "exists_path fs p = (fs p \<noteq> None)"

definition isdir :: "'t filesystem \<Rightarrow> path \<Rightarrow> bool" where
  "isdir fs p = (case fs p of Some (Dir t ns) \<Rightarrow> True | _ \<Rightarrow> False)"

definition isfile :: "'t filesystem \<Rightarrow> path \<Rightarrow> bool" where
  "isfile fs p = (case fs p of Some (File t) \<Rightarrow> True | _ \<Rightarrow> False)"

text \<open>
  \<open>os.listdir\<close> raises \<open>OSError\<close> on what is not a directory, \<open>os.path.getmtime\<close> on
  what does not exist: the result \<open>None\<close>.
\<close>

definition listdir :: "'t filesystem \<Rightarrow> path \<Rightarrow> string list option" where
  "listdir fs p = (case fs p of Some (Dir t ns) \<Rightarrow> Some ns | _ \<Rightarrow> None)"

definition getmtime :: "'t filesystem \<Rightarrow> path \<Rightarrow> 't option" where
  "getmtime fs p =
     (case fs p of Some (File t) \<Rightarrow> Some t | Some (Dir t ns) \<Rightarrow> Some t | None \<Rightarrow> None)"

subsection \<open>Widgets and the state of the window\<close>

datatype btn_state = NORMAL | DISABLED

text \<open>
  A label: the \<open>image\<close> option set through \<open>config\<close> (\<open>None\<close> for \<open>image=""\<close>), the
  reference kept in the attribute \<open>image\<close>, and the attribute \<open>original_image\<close>.
  A \<open>PhotoImage\<close> is represented by the picture it was made from.
\<close>

record 'img label_widget =
  config_image :: "'img option"
  image :: "'img option"
  original_image :: "'img option"

datatype label_id = InputLabel | ResultLabel

record 'img gui =
  input_image_path :: "path option"
  yolov7_dir :: path
  weights_path :: path
  browse_button :: btn_state
  detect_button :: btn_state
  reset_button :: btn_state
  info_label :: string
  input_image_label :: "'img label_widget"
  result_image_label :: "'img label_widget"

text \<open>What a method does besides changing the window, in order.\<close>

datatype 'img effect =
    ShowError string string
  | ShowWarning string string
  | StartThread "'img gui"

text \<open>
  \<open>StartThread g\<close> is \<open>thread.start()\<close> on \<open>detect_objects\<close>, with the state \<open>g\<close> of the
  window at the moment of the call: what the worker finds when it begins.
\<close>

text \<open>The three statements that empty a label.\<close>

definition clear_label :: "'img label_widget \<Rightarrow> 'img label_widget" where
  "clear_label l = l\<lparr>config_image := None, image := None, original_image := None\<rparr>"

text \<open>A label as \<open>build_widgets\<close> creates it.\<close>

definition empty_label :: "'img label_widget" where
  "empty_label = \<lparr>config_image = None, image = None, original_image = None\<rparr>"

subsection \<open>\<open>reset_ui\<close>\<close>

definition reset_ui :: "bool \<Rightarrow> 'img gui \<Rightarrow> 'img gui" where
  "reset_ui clear_input g =
     (let g1 = (if clear_input
                then g\<lparr>input_image_path := None,
                       info_label := ''Select an image to begin detection.'',
                       input_image_label := clear_label (input_image_label g),
                       detect_button := DISABLED\<rparr>
                else g);
          g2 = g1\<lparr>result_image_label := clear_label (result_image_label g1)\<rparr>;
          g3 = g2\<lparr>browse_button := NORMAL, reset_button := NORMAL\<rparr>
      in if \<not> clear_input \<and> truthy (input_image_path g3)
         then g3\<lparr>detect_button := NORMAL\<rparr> else g3)"

subsection \<open>Pillow and the geometry of the widgets\<close>

text \<open>
  \<open>pil_open\<close> is \<open>PILImage.open\<close>; \<open>copy_thumbnail\<close> is \<open>copy()\<close> followed by
  \<open>thumbnail(size, LANCZOS)\<close> on the copy; \<open>photo_image\<close> is \<open>ImageTk.PhotoImage\<close>,
  \<open>None\<close> when the constructor raises; \<open>winfo_size\<close> gives \<open>winfo_width()\<close> and
  \<open>winfo_height()\<close> of the frame that holds the label.
\<close>

record 'img toolkit =
  pil_open :: "path \<Rightarrow> exn + 'img"
  copy_thumbnail :: "'img \<Rightarrow> int \<times> int \<Rightarrow> exn + 'img"
  photo_image :: "'img \<Rightarrow> 'img option"
  winfo_size :: "label_id \<Rightarrow> int \<times> int"

definition get_label :: "label_id \<Rightarrow> 'img gui \<Rightarrow> 'img label_widget" where
  "get_label lid g =
     (case lid of InputLabel \<Rightarrow> input_image_label g | ResultLabel \<Rightarrow> result_image_label g)"

definition set_label :: "label_id \<Rightarrow> 'img label_widget \<Rightarrow> 'img gui \<Rightarrow> 'img gui" where
  "set_label lid l g =
     (case lid of InputLabel \<Rightarrow> g\<lparr>input_image_label := l\<rparr>
      | ResultLabel \<Rightarrow> g\<lparr>result_image_label := l\<rparr>)"

subsection \<open>\<open>update_label_image\<close> and \<open>display_flexible_image\<close>\<close>

text \<open>
  \<open>Inl\<close> is an exception that leaves \<open>update_label_image\<close>: only the call of
  \<open>thumbnail\<close> stands outside its \<open>try\<close>.
\<close>

definition update_label_image :: "'img toolkit \<Rightarrow> label_id \<Rightarrow> 'img gui \<Rightarrow> exn + 'img gui" where
  "update_label_image tk lid g =
     (case original_image (get_label lid g) of
        None \<Rightarrow> Inr g
      | Some orig_image \<Rightarrow>
          (case winfo_size tk lid of (width, height) \<Rightarrow>
             if width < 20 \<or> height < 20 then Inr g
             else
               (case copy_thumbnail tk orig_image (width - 10, height - 10) of
                  Inl e \<Rightarrow> Inl e
                | Inr img_copy \<Rightarrow>
                    (case photo_image tk img_copy of
                       None \<Rightarrow> Inr g
                     | Some photo \<Rightarrow>
                         Inr (set_label lid
                               ((get_label lid g)\<lparr>config_image := Some photo,
                                                  image := Some photo\<rparr>) g)))))"

definition display_failed :: "path \<Rightarrow> exn \<Rightarrow> 'img gui \<Rightarrow> 'img gui \<times> 'img effect list" where
  "display_failed image_path e g =
     (case e of
        FileNotFoundError m \<Rightarrow>
          (reset_ui True g, [ShowError ''Error'' (''Image file not found: '' @ image_path)])
      | OtherException t m \<Rightarrow>
          (reset_ui True g,
           [ShowError ''Image Loading Error''
              (''Could not load image: '' @ image_path @ ''\<newline>Error: '' @ exn_str e)]))"

definition display_flexible_image ::
  "'img toolkit \<Rightarrow> path \<Rightarrow> label_id \<Rightarrow> 'img gui \<Rightarrow> 'img gui \<times> 'img effect list" where
  "display_flexible_image tk image_path lid g =
     (let g1 = set_label lid ((get_label lid g)\<lparr>image := None, original_image := None\<rparr>) g
      in case pil_open tk image_path of
           Inl e \<Rightarrow> display_failed image_path e g1
         | Inr orig_image \<Rightarrow>
             (let g2 = set_label lid ((get_label lid g1)\<lparr>original_image := Some orig_image\<rparr>) g1
              in case update_label_image tk lid g2 of
                   Inl e \<Rightarrow> display_failed image_path e g2
                 | Inr g3 \<Rightarrow> (g3, [])))"

subsection \<open>\<open>check_yolov7_setup\<close> and \<open>start_detection_thread\<close>\<close>

definition check_yolov7_setup :: "'t filesystem \<Rightarrow> 'img gui \<Rightarrow> bool \<times> 'img effect list" where
  "check_yolov7_setup fs g =
     (if \<not> isdir fs (yolov7_dir g) then
        (False,
         [ShowWarning ''Setup Warning''
            (''YOLOv7 directory not found at: '' @ yolov7_dir g @ ''\<newline>''
             @ ''Please ensure the '' @ quote @ ''yolov7'' @ quote
             @ '' folder is in the same directory as this script, ''
             @ ''or modify the '' @ quote @ ''self.yolov7_dir'' @ quote
             @ '' path in the code.\<newline>''
             @ ''Detection will likely fail.'')])
      else
        (let detect_script = path_join (yolov7_dir g) [''detect.py'']
         in if \<not> isfile fs detect_script then
              (False,
               [ShowWarning ''Setup Warning''
                  (''YOLOv7 '' @ quote @ ''detect.py'' @ quote @ '' script not found in: ''
                   @ yolov7_dir g @ ''\<newline>'' @ ''Detection will not work.'')])
            else if \<not> isfile fs (weights_path g) then
              (True,
               [ShowWarning ''Setup Warning''
                  (''Default weights file '' @ quote @ basename (weights_path g) @ quote
                   @ '' not found in: '' @ yolov7_dir g @ ''\<newline>''
                   @ ''Detection requires weights. You might need to download them (e.g., yolov7.pt).'')])
            else (True, [])))"

definition start_detection_thread :: "'t filesystem \<Rightarrow> 'img gui \<Rightarrow> 'img gui \<times> 'img effect list" where
  "start_detection_thread fs g =
     (if \<not> truthy (input_image_path g)
         \<or> \<not> (case input_image_path g of None \<Rightarrow> False | Some p \<Rightarrow> exists_path fs p)
      then (g, [ShowError ''Error'' ''No valid image selected or file not found.''])
      else
        (case check_yolov7_setup fs g of
           (ok, warnings) \<Rightarrow>
             if \<not> ok then (g, warnings)
             else
               (let g1 = g\<lparr>detect_button := DISABLED\<rparr>;
                    g2 = g1\<lparr>browse_button := DISABLED\<rparr>;
                    g3 = g2\<lparr>reset_button := DISABLED\<rparr>;
                    g4 = g3\<lparr>info_label := ''Detecting objects, please wait...''\<rparr>;
                    g5 = g4\<lparr>result_image_label := clear_label (result_image_label g4)\<rparr>
                in (g5, warnings @ [StartThread g5]))))"

subsection \<open>The worker: \<open>find_latest_run_output\<close> and \<open>detect_objects\<close>\<close>

text \<open>
  \<open>max(xs, key=f)\<close>: the first element whose key no later element exceeds. \<open>None\<close> when
  the list is empty or a call of the key raises.
\<close>

fun max_from :: "('a \<Rightarrow> 'k::linorder option) \<Rightarrow> 'a \<Rightarrow> 'k \<Rightarrow> 'a list \<Rightarrow> 'a option" where
  "max_from key best kbest [] = Some best"
| "max_from key best kbest (x # xs) =
     (case key x of
        None \<Rightarrow> None
      | Some k \<Rightarrow> if kbest < k then max_from key x k xs else max_from key best kbest xs)"

fun max_key :: "('a \<Rightarrow> 'k::linorder option) \<Rightarrow> 'a list \<Rightarrow> 'a option" where
  "max_key key [] = None"
| "max_key key (x # xs) = (case key x of None \<Rightarrow> None | Some k \<Rightarrow> max_from key x k xs)"

definition sub_dirs_of :: "'t filesystem \<Rightarrow> path \<Rightarrow> string list \<Rightarrow> path list" where
  "sub_dirs_of fs project_dir names =
     map (join2 project_dir) (filter (\<lambda>d. isdir fs (join2 project_dir d)) names)"

text \<open>The \<open>except Exception\<close> of the method turns every \<open>None\<close> below into \<open>return None\<close>.\<close>

definition find_latest_run_output ::
  "('t::linorder) filesystem \<Rightarrow> path \<Rightarrow> path \<Rightarrow> path option" where
  "find_latest_run_output fs project_dir image_name =
     (case listdir fs project_dir of
        None \<Rightarrow> None
      | Some names \<Rightarrow>
          (let sub_dirs = sub_dirs_of fs project_dir names
           in if sub_dirs = [] then None
              else
                (case max_key (getmtime fs) sub_dirs of
                   None \<Rightarrow> None
                 | Some latest_dir \<Rightarrow>
                     (let potential_output = join2 latest_dir image_name
                      in if exists_path fs potential_output then Some potential_output
                         else None))))"

record completed_process =
  returncode :: int
  stdout :: string
  stderr :: string

text \<open>What the worker schedules on the main loop with \<open>root.after(0, ...)\<close>.\<close>

datatype callback =
    CallShowError string string
  | CallUpdateGuiPost "path option" bool

definition detect_command :: "string \<Rightarrow> path \<Rightarrow> path \<Rightarrow> path \<Rightarrow> string list" where
  "detect_command python_executable weights src project_dir =
     [python_executable, ''detect.py'', ''--weights'', weights,
      ''--conf-thres'', ''0.25'', ''--iou-thres'', ''0.45'',
      ''--source'', src, ''--project'', project_dir, ''--name'', ''GUI_exp'',
      ''--exist-ok'', ''--save-txt'', ''--no-trace'']"

text \<open>
  The directory given to the tool as \<open>--project\<close> and the path where the annotated
  picture is expected: \<open>project_dir / experiment_name / image_name\<close>.
\<close>

definition project_dir_of :: "'img gui \<Rightarrow> path" where
  "project_dir_of g = path_join (yolov7_dir g) [''runs'', ''detect'']"

definition expected_output :: "'img gui \<Rightarrow> path \<Rightarrow> path" where
  "expected_output g src = path_join (project_dir_of g) [''GUI_exp'', basename src]"

definition exit_code_message :: "completed_process \<Rightarrow> string" where
  "exit_code_message result =
     ''Object detection failed (detect.py exited with code '' @ str_int (returncode result)
     @ '').\<newline>\<newline>'' @ ''Check console/terminal output for details.\<newline>''
     @ (if stderr result \<noteq> []
        then ''\<newline>Error details:\<newline>'' @ str_join '' '' (last_n 5 (splitlines (stderr result)))
        else [])"

text \<open>
  The body of the \<open>try\<close>. \<open>subprocess_run\<close> takes the argument list and the working
  directory and gives the finished process, or the exception \<open>subprocess.run\<close> raises;
  \<open>fs\<close> is the filesystem the process leaves behind. \<open>os.path.basename(None)\<close> raises
  \<open>TypeError\<close>.
\<close>

definition detect_try ::
  "(string list \<Rightarrow> path \<Rightarrow> exn + completed_process) \<Rightarrow> string \<Rightarrow> ('t::linorder) filesystem
     \<Rightarrow> 'img gui \<Rightarrow> exn + callback list" where
  "detect_try subprocess_run python_executable fs g =
     (case input_image_path g of
        None \<Rightarrow>
          Inl (OtherException ''TypeError''
                 ''expected str, bytes or os.PathLike object, not NoneType'')
      | Some src \<Rightarrow>
          (let image_name = basename src;
               project_dir = project_dir_of g;
               command = detect_command python_executable (weights_path g) src project_dir
           in case subprocess_run command (yolov7_dir g) of
                Inl e \<Rightarrow> Inl e
              | Inr result \<Rightarrow>
                  if returncode result \<noteq> 0
                  then Inr [CallShowError ''Detection Error'' (exit_code_message result)]
                  else
                    (let output_path = expected_output g src;
                         not_found =
                           [CallShowError ''Error''
                              (''Output image could not be found.\<newline>Expected: '' @ output_path
                               @ ''\<newline>Also checked latest runs in: '' @ project_dir),
                            CallUpdateGuiPost None False]
                     in if exists_path fs output_path
                        then Inr [CallUpdateGuiPost (Some output_path) True]
                        else
                          (case find_latest_run_output fs project_dir image_name of
                             None \<Rightarrow> Inr not_found
                           | Some latest_run_path \<Rightarrow>
                               if latest_run_path \<noteq> [] \<and> exists_path fs latest_run_path
                               then Inr [CallUpdateGuiPost (Some latest_run_path) True]
                               else Inr not_found))))"

text \<open>The method with its two handlers.\<close>

definition detect_objects ::
  "(string list \<Rightarrow> path \<Rightarrow> exn + completed_process) \<Rightarrow> string \<Rightarrow> ('t::linorder) filesystem
     \<Rightarrow> 'img gui \<Rightarrow> callback list" where
  "detect_objects subprocess_run python_executable fs g =
     (case detect_try subprocess_run python_executable fs g of
        Inr scheduled \<Rightarrow> scheduled
      | Inl (FileNotFoundError m) \<Rightarrow>
          [CallShowError ''Execution Error''
             (''File not found during detection: '' @ m @ ''.\<newline>''
              @ ''Ensure '' @ quote @ python_executable @ quote @ '' is runnable and ''
              @ quote @ ''detect.py'' @ quote @ '' exists in '' @ yolov7_dir g @ ''.''),
           CallUpdateGuiPost None False]
      | Inl (OtherException t m) \<Rightarrow>
          [CallShowError ''Execution Error''
             (''An unexpected error occurred during detection:\<newline>'' @ t @ '': '' @ m),
           CallUpdateGuiPost None False])"

subsection \<open>Back on the main loop: \<open>update_gui_post_detection\<close>\<close>

definition update_gui_post_detection ::
  "'img toolkit \<Rightarrow> path option \<Rightarrow> bool \<Rightarrow> 'img gui \<Rightarrow> 'img gui \<times> 'img effect list" where
  "update_gui_post_detection tk output_path success g =
     (let failed =
            (g\<lparr>info_label := ''Detection failed or output not found.'',
               result_image_label := clear_label (result_image_label g)\<rparr>, []);
          shown =
            (case output_path of
               None \<Rightarrow> failed
             | Some p \<Rightarrow>
                 if success \<and> p \<noteq> []
                 then display_flexible_image tk p ResultLabel
                        (g\<lparr>info_label := ''Detection complete. Result: '' @ basename p\<rparr>)
                 else failed)
      in case shown of
           (g1, effects) \<Rightarrow>
             (g1\<lparr>detect_button := (if truthy (input_image_path g1) then NORMAL else DISABLED),
                 browse_button := NORMAL,
                 reset_button := NORMAL\<rparr>,
              effects))"

text \<open>The main loop runs the scheduled calls in the order they were scheduled.\<close>

fun run_callback :: "'img toolkit \<Rightarrow> callback \<Rightarrow> 'img gui \<Rightarrow> 'img gui \<times> 'img effect list" where
  "run_callback tk (CallShowError title message) g = (g, [ShowError title message])"
| "run_callback tk (CallUpdateGuiPost output_path success) g =
     update_gui_post_detection tk output_path success g"

fun run_callbacks :: "'img toolkit \<Rightarrow> callback list \<Rightarrow> 'img gui \<Rightarrow> 'img gui \<times> 'img effect list" where
  "run_callbacks tk [] g = (g, [])"
| "run_callbacks tk (cb # cbs) g =
     (case run_callback tk cb g of
        (g1, effects1) \<Rightarrow>
          (case run_callbacks tk cbs g1 of (g2, effects2) \<Rightarrow> (g2, effects1 @ effects2)))"

subsection \<open>One detection, from the click to the last scheduled call\<close>

fun thread_started :: "'img effect list \<Rightarrow> 'img gui option" where
  "thread_started [] = None"
| "thread_started (StartThread s # es) = Some s"
| "thread_started (e # es) = thread_started es"

text \<open>
  The click runs \<open>start_detection_thread\<close> on the filesystem \<open>fs0\<close>; a started worker runs
  \<open>detect_objects\<close> and leaves the filesystem \<open>fs1\<close>; the main loop then runs what the
  worker scheduled.
\<close>

definition detection_round ::
  "('t::linorder) filesystem \<Rightarrow> (string list \<Rightarrow> path \<Rightarrow> exn + completed_process) \<Rightarrow> string
     \<Rightarrow> 't filesystem \<Rightarrow> 'img toolkit \<Rightarrow> 'img gui \<Rightarrow> 'img gui \<times> 'img effect list" where
  "detection_round fs0 subprocess_run python_executable fs1 tk g =
     (case start_detection_thread fs0 g of
        (g1, effects) \<Rightarrow>
          (case thread_started effects of
             None \<Rightarrow> (g1, effects)
           | Some s \<Rightarrow>
               (case run_callbacks tk (detect_objects subprocess_run python_executable fs1 s) g1 of
                  (g2, effects2) \<Rightarrow> (g2, effects @ effects2))))"

text \<open>Message boxes, as opposed to the start of the worker.\<close>

fun is_notice :: "'img effect \<Rightarrow> bool" where
  "is_notice (ShowError title message) = True"
| "is_notice (ShowWarning title message) = True"
| "is_notice (StartThread s) = False"

subsection \<open>A concrete installation\<close>

text \<open>
  A window with a picture selected and a stale result on display, an installation of the
  tool under \<open>/app/yolov7\<close>, and the filesystems three runs may leave behind. Pictures
  are named by their paths, a thumbnail by the path and the box it was fitted to.
\<close>

definition ex_label :: "string \<Rightarrow> string label_widget" where
  "ex_label p = \<lparr>config_image = Some p, image = Some p, original_image = Some p\<rparr>"

definition ex_gui :: "string gui" where
  "ex_gui =
     \<lparr>input_image_path = Some ''/home/u/cat.jpg'',
      yolov7_dir = ''/app/yolov7'',
      weights_path = ''/app/yolov7/yolov7.pt'',
      browse_button = NORMAL,
      detect_button = NORMAL,
      reset_button = NORMAL,
      info_label = ''Selected: cat.jpg'',
      input_image_label = ex_label ''/home/u/cat.jpg'',
      result_image_label = ex_label ''/app/yolov7/runs/detect/GUI_exp/dog.jpg''\<rparr>"

definition ex_installed :: "(path \<times> nat node) list" where
  "ex_installed =
     [(''/home/u/cat.jpg'', File 2),
      (''/app/yolov7'', Dir 1 [''detect.py'', ''yolov7.pt'', ''runs'']),
      (''/app/yolov7/detect.py'', File 2),
      (''/app/yolov7/yolov7.pt'', File 2)]"

definition ex_fs :: "nat filesystem" where
  "ex_fs = map_of ex_installed"

definition ex_fs_no_tool :: "nat filesystem" where
  "ex_fs_no_tool = map_of [(''/home/u/cat.jpg'', File 2)]"

definition ex_fs_expected :: "nat filesystem" where
  "ex_fs_expected =
     map_of (ex_installed @
       [(''/app/yolov7/runs/detect'', Dir 8 [''GUI_exp'']),
        (''/app/yolov7/runs/detect/GUI_exp'', Dir 8 [''cat.jpg'']),
        (''/app/yolov7/runs/detect/GUI_exp/cat.jpg'', File 2)])"

definition ex_fs_fallback :: "nat filesystem" where
  "ex_fs_fallback =
     map_of (ex_installed @
       [(''/app/yolov7/runs/detect'', Dir 9 [''GUI_exp'', ''notes.txt'', ''GUI_exp2'', ''GUI_exp3'']),
        (''/app/yolov7/runs/detect/GUI_exp'', Dir 3 [''dog.jpg'']),
        (''/app/yolov7/runs/detect/GUI_exp/dog.jpg'', File 2),
        (''/app/yolov7/runs/detect/notes.txt'', File 12),
        (''/app/yolov7/runs/detect/GUI_exp2'', Dir 9 [''cat.jpg'']),
        (''/app/yolov7/runs/detect/GUI_exp2/cat.jpg'', File 2),
        (''/app/yolov7/runs/detect/GUI_exp3'', Dir 5 [])])"

definition ex_run_ok :: "string list \<Rightarrow> path \<Rightarrow> exn + completed_process" where
  "ex_run_ok command cwd = Inr \<lparr>returncode = 0, stdout = ''Done.'', stderr = []\<rparr>"

definition ex_run_exit1 :: "string list \<Rightarrow> path \<Rightarrow> exn + completed_process" where
  "ex_run_exit1 command cwd =
     Inr \<lparr>returncode = 1, stdout = [],
          stderr = ''a\<newline>b\<newline>c\<newline>d\<newline>e\<newline>f\<newline>RuntimeError: bad weights\<newline>''\<rparr>"

definition ex_run_raises :: "string list \<Rightarrow> path \<Rightarrow> exn + completed_process" where
  "ex_run_raises command cwd = Inl (OtherException ''PermissionError'' ''[Errno 13] Permission denied'')"

definition ex_toolkit :: "int \<times> int \<Rightarrow> string toolkit" where
  "ex_toolkit wh =
     \<lparr>pil_open = (\<lambda>p. Inr p),
      copy_thumbnail = (\<lambda>img box. Inr (img @ ''@'' @ str_int (fst box) @ ''x'' @ str_int (snd box))),
      photo_image = (\<lambda>img. Some img),
      winfo_size = (\<lambda>lid. wh)\<rparr>"

section \<open>Properties\<close>

subsection \<open>The concrete installation, evaluated\<close>

lemma ex_project_dir: "project_dir_of ex_gui = ''/app/yolov7/runs/detect''"
  by (simp add: project_dir_of_def path_join_def join2_def ex_gui_def)

lemma ex_expected_output:
  "expected_output ex_gui ''/home/u/cat.jpg'' = ''/app/yolov7/runs/detect/GUI_exp/cat.jpg''"
  by (simp add: expected_output_def ex_project_dir path_join_def join2_def basename_def)

lemma ex_basename: "basename ''/home/u/cat.jpg'' = ''cat.jpg''"
  by (simp add: basename_def)

lemma ex_check_ok: "check_yolov7_setup ex_fs ex_gui = (True, [])"
  by (simp add: check_yolov7_setup_def ex_fs_def ex_installed_def ex_gui_def isdir_def
      isfile_def path_join_def join2_def)

lemma ex_check_no_tool: "fst (check_yolov7_setup ex_fs_no_tool ex_gui) = False"
  by (simp add: check_yolov7_setup_def ex_fs_no_tool_def ex_gui_def isdir_def)

lemma ex_run_ok_result:
  "ex_run_ok c d = Inr \<lparr>returncode = 0, stdout = ''Done.'', stderr = []\<rparr>"
  by (simp add: ex_run_ok_def)

lemma ex_listdir:
  "listdir ex_fs_fallback ''/app/yolov7/runs/detect''
     = Some [''GUI_exp'', ''notes.txt'', ''GUI_exp2'', ''GUI_exp3'']"
  by (simp add: listdir_def ex_fs_fallback_def ex_installed_def)

lemma ex_sub_dirs:
  "sub_dirs_of ex_fs_fallback ''/app/yolov7/runs/detect''
     [''GUI_exp'', ''notes.txt'', ''GUI_exp2'', ''GUI_exp3'']
   = [''/app/yolov7/runs/detect/GUI_exp''] @ ''/app/yolov7/runs/detect/GUI_exp2''
       # [''/app/yolov7/runs/detect/GUI_exp3'']"
  by (simp add: sub_dirs_of_def join2_def isdir_def ex_fs_fallback_def ex_installed_def)

lemma ex_splitlines:
  "splitlines ''a\<newline>b\<newline>c\<newline>d\<newline>e\<newline>f\<newline>RuntimeError: bad weights\<newline>''
     = [''a'', ''b'', ''c'', ''d'', ''e'', ''f'', ''RuntimeError: bad weights'']"
  by (simp add: splitlines_def is_linebreak_def)

subsection \<open>Labels and reset\<close>

lemma clear_label_empty: "clear_label l = empty_label"
  by (simp add: clear_label_def empty_label_def)

lemma ex_start:
  "start_detection_thread ex_fs ex_gui =
       (ex_gui\<lparr>detect_button := DISABLED, browse_button := DISABLED, reset_button := DISABLED,
              info_label := ''Detecting objects, please wait...'',
              result_image_label := empty_label\<rparr>,
        [StartThread
           (ex_gui\<lparr>detect_button := DISABLED, browse_button := DISABLED, reset_button := DISABLED,
                  info_label := ''Detecting objects, please wait...'',
                  result_image_label := empty_label\<rparr>)])"
  by (simp add: start_detection_thread_def truthy_def ex_check_ok Let_def clear_label_empty)
     (simp add: ex_gui_def exists_path_def ex_fs_def ex_installed_def)

text \<open>
  Claim C8. From every state of the window, \<open>reset_ui()\<close> leaves the window as it was
  built (idle): no remembered source path, both panels empty, the initial instruction,
  detection disabled, browse and reset enabled. \<open>reset_ui(clear_input=False)\<close> leaves the
  remembered source path, the input panel and the instruction as they were and empties
  the result panel.
\<close>

theorem reset_ui_frame:
  "input_image_path (reset_ui True g) = None
   \<and> input_image_label (reset_ui True g) = empty_label
   \<and> result_image_label (reset_ui True g) = empty_label
   \<and> info_label (reset_ui True g) = ''Select an image to begin detection.''
   \<and> detect_button (reset_ui True g) = DISABLED
   \<and> browse_button (reset_ui True g) = NORMAL
   \<and> reset_button (reset_ui True g) = NORMAL
   \<and> input_image_path (reset_ui False g) = input_image_path g
   \<and> input_image_label (reset_ui False g) = input_image_label g
   \<and> info_label (reset_ui False g) = info_label g
   \<and> result_image_label (reset_ui False g) = empty_label"
  by (simp add: reset_ui_def Let_def clear_label_empty truthy_def)

theorem reset_ui_frame_witness:
  "input_image_path ex_gui = Some ''/home/u/cat.jpg''
   \<and> result_image_label ex_gui \<noteq> empty_label
   \<and> input_image_path (reset_ui True ex_gui) = None
   \<and> input_image_label (reset_ui True ex_gui) = empty_label
   \<and> input_image_path (reset_ui False ex_gui) = Some ''/home/u/cat.jpg''
   \<and> input_image_label (reset_ui False ex_gui) = ex_label ''/home/u/cat.jpg''
   \<and> result_image_label (reset_ui False ex_gui) = empty_label"
  using reset_ui_frame [of ex_gui] by (simp add: ex_gui_def ex_label_def empty_label_def)

subsection \<open>Rendering into a panel\<close>

text \<open>
  Above the threshold the label is redrawn from the thumbnail: the branch the next claim
  excludes does change the window.
\<close>

lemma update_label_image_redraws:
  "update_label_image (ex_toolkit (400, 300)) InputLabel ex_gui =
     Inr (ex_gui\<lparr>input_image_label :=
            \<lparr>config_image = Some ''/home/u/cat.jpg@390x290'',
             image = Some ''/home/u/cat.jpg@390x290'',
             original_image = Some ''/home/u/cat.jpg''\<rparr>\<rparr>)"
  by (simp add: update_label_image_def ex_toolkit_def ex_gui_def ex_label_def get_label_def
      set_label_def str_int_def)

text \<open>
  Claim C6. When the frame of a label is less than 20 wide or less than 20 high,
  \<open>update_label_image\<close> returns normally and leaves the window exactly as it was,
  whatever Pillow would do: no thumbnail is made and the label keeps its picture.
\<close>

theorem update_label_image_small_panel:
  "fst (winfo_size tk lid) < 20 \<or> snd (winfo_size tk lid) < 20
     \<Longrightarrow> update_label_image tk lid g = Inr g"
  by (auto simp: update_label_image_def split: option.splits prod.splits)

theorem update_label_image_small_panel_witness:
  "original_image (get_label InputLabel ex_gui) = Some ''/home/u/cat.jpg''
   \<and> winfo_size (ex_toolkit (19, 300)) InputLabel = (19, 300)
   \<and> update_label_image (ex_toolkit (19, 300)) InputLabel ex_gui = Inr ex_gui"
  using update_label_image_small_panel [of "ex_toolkit (19, 300)" InputLabel ex_gui]
  by (simp add: ex_toolkit_def ex_gui_def ex_label_def get_label_def)

subsection \<open>Triggering detection\<close>

lemma check_yolov7_setup_notices:
  "list_all is_notice (snd (check_yolov7_setup fs g))"
  by (simp add: check_yolov7_setup_def Let_def)

lemma check_yolov7_setup_failed_warns:
  "\<not> fst (check_yolov7_setup fs g) \<Longrightarrow> snd (check_yolov7_setup fs g) \<noteq> []"
  by (simp add: check_yolov7_setup_def Let_def split: if_splits)

lemma thread_started_notices: "list_all is_notice es \<Longrightarrow> thread_started es = None"
  by (induction es rule: thread_started.induct) simp_all

lemma thread_started_append:
  "list_all is_notice es \<Longrightarrow> thread_started (es @ [StartThread s]) = Some s"
  by (induction es rule: thread_started.induct) simp_all

text \<open>
  Claim C10. When no source picture is selected, or the selected file no longer exists,
  or \<open>check_yolov7_setup\<close> returns \<open>False\<close>, \<open>start_detection_thread\<close> leaves the window
  exactly as it was (no control disabled, no result cleared), starts no worker, and shows
  at least one message box and nothing but message boxes.
\<close>

theorem start_detection_thread_refused:
  assumes "\<not> truthy (input_image_path g)
           \<or> (\<exists>p. input_image_path g = Some p \<and> \<not> exists_path fs p)
           \<or> \<not> fst (check_yolov7_setup fs g)"
  shows "fst (start_detection_thread fs g) = g
         \<and> snd (start_detection_thread fs g) \<noteq> []
         \<and> list_all is_notice (snd (start_detection_thread fs g))
         \<and> thread_started (snd (start_detection_thread fs g)) = None"
proof -
  let ?r = "start_detection_thread fs g"
  have st: "fst ?r = g" and ne: "snd ?r \<noteq> []" and no: "list_all is_notice (snd ?r)"
    using assms check_yolov7_setup_notices [of fs g] check_yolov7_setup_failed_warns [of fs g]
    by (auto simp: start_detection_thread_def truthy_def split: option.splits prod.splits)
  from no have "thread_started (snd ?r) = None" by (rule thread_started_notices)
  with st ne no show ?thesis by simp
qed

theorem start_detection_thread_refused_witness:
  "\<not> truthy (input_image_path (ex_gui\<lparr>input_image_path := None\<rparr>))
   \<and> start_detection_thread ex_fs (ex_gui\<lparr>input_image_path := None\<rparr>)
       = (ex_gui\<lparr>input_image_path := None\<rparr>,
          [ShowError ''Error'' ''No valid image selected or file not found.''])
   \<and> \<not> fst (check_yolov7_setup ex_fs_no_tool ex_gui)
   \<and> fst (start_detection_thread ex_fs_no_tool ex_gui) = ex_gui
   \<and> thread_started (snd (start_detection_thread ex_fs_no_tool ex_gui)) = None"
proof -
  have h1: "\<not> truthy (input_image_path (ex_gui\<lparr>input_image_path := None\<rparr>))"
    by (simp add: truthy_def)
  have h2: "\<not> fst (check_yolov7_setup ex_fs_no_tool ex_gui)"
    by (simp add: ex_check_no_tool)
  have e: "start_detection_thread ex_fs (ex_gui\<lparr>input_image_path := None\<rparr>)
       = (ex_gui\<lparr>input_image_path := None\<rparr>,
          [ShowError ''Error'' ''No valid image selected or file not found.''])"
    by (simp add: start_detection_thread_def truthy_def)
  from h1 h2 e
    start_detection_thread_refused [of "ex_gui\<lparr>input_image_path := None\<rparr>" ex_fs]
    start_detection_thread_refused [of ex_gui ex_fs_no_tool]
  show ?thesis by simp
qed

text \<open>
  Claim C7. With a source picture selected that still exists and a setup check that
  passes, \<open>start_detection_thread\<close> disables the detect, browse and reset buttons and
  empties the result label, and only then starts the worker: the start of the thread is
  the last effect, nothing before it starts a thread, and the state of the window at the
  start already has the three buttons disabled and the result label empty.
\<close>

theorem start_detection_thread_order:
  assumes "input_image_path g = Some p" and "p \<noteq> []" and "exists_path fs p"
    and "check_yolov7_setup fs g = (True, warnings)"
  shows "start_detection_thread fs g =
           (g\<lparr>detect_button := DISABLED, browse_button := DISABLED, reset_button := DISABLED,
              info_label := ''Detecting objects, please wait...'',
              result_image_label := empty_label\<rparr>,
            warnings @
            [StartThread
               (g\<lparr>detect_button := DISABLED, browse_button := DISABLED, reset_button := DISABLED,
                  info_label := ''Detecting objects, please wait...'',
                  result_image_label := empty_label\<rparr>)])
         \<and> thread_started warnings = None"
proof -
  have "list_all is_notice warnings"
    using check_yolov7_setup_notices [of fs g] assms(4) by simp
  then have "thread_started warnings = None" by (rule thread_started_notices)
  moreover have "start_detection_thread fs g =
           (g\<lparr>detect_button := DISABLED, browse_button := DISABLED, reset_button := DISABLED,
              info_label := ''Detecting objects, please wait...'',
              result_image_label := empty_label\<rparr>,
            warnings @
            [StartThread
               (g\<lparr>detect_button := DISABLED, browse_button := DISABLED, reset_button := DISABLED,
                  info_label := ''Detecting objects, please wait...'',
                  result_image_label := empty_label\<rparr>)])"
    using assms by (simp add: start_detection_thread_def truthy_def Let_def clear_label_empty)
  ultimately show ?thesis by simp
qed

theorem start_detection_thread_order_witness:
  "input_image_path ex_gui = Some ''/home/u/cat.jpg''
   \<and> exists_path ex_fs ''/home/u/cat.jpg''
   \<and> check_yolov7_setup ex_fs ex_gui = (True, [])
   \<and> result_image_label ex_gui \<noteq> empty_label
   \<and> start_detection_thread ex_fs ex_gui =
       (ex_gui\<lparr>detect_button := DISABLED, browse_button := DISABLED, reset_button := DISABLED,
              info_label := ''Detecting objects, please wait...'',
              result_image_label := empty_label\<rparr>,
        [StartThread
           (ex_gui\<lparr>detect_button := DISABLED, browse_button := DISABLED, reset_button := DISABLED,
                  info_label := ''Detecting objects, please wait...'',
                  result_image_label := empty_label\<rparr>)])"
proof -
  have h1: "input_image_path ex_gui = Some ''/home/u/cat.jpg''" by (simp add: ex_gui_def)
  have h2: "''/home/u/cat.jpg'' \<noteq> []" by simp
  have h3: "exists_path ex_fs ''/home/u/cat.jpg''"
    by (simp add: exists_path_def ex_fs_def ex_installed_def)
  have h5: "result_image_label ex_gui \<noteq> empty_label"
    by (simp add: ex_gui_def ex_label_def empty_label_def)
  from start_detection_thread_order [OF h1 h2 h3 ex_check_ok] h1 h3 h5 ex_check_ok
  show ?thesis by simp
qed

subsection \<open>Paths the worker builds\<close>

lemma join2_nonempty_right: "b \<noteq> [] \<Longrightarrow> join2 a b \<noteq> []"
  by (simp add: join2_def)

lemma join2_nonempty_left: "a \<noteq> [] \<Longrightarrow> join2 a b \<noteq> []"
  by (simp add: join2_def)

lemma project_dir_of_nonempty: "project_dir_of g \<noteq> []"
  by (simp add: project_dir_of_def path_join_def join2_nonempty_right)

lemma expected_output_nonempty: "expected_output g src \<noteq> []"
  by (simp add: expected_output_def path_join_def join2_nonempty_left join2_nonempty_right)

lemma sub_dirs_of_nonempty: "d \<in> set (sub_dirs_of fs (project_dir_of g) names) \<Longrightarrow> d \<noteq> []"
  by (auto simp: sub_dirs_of_def join2_nonempty_left project_dir_of_nonempty)

lemma sub_dirs_of_mtime:
  "d \<in> set (sub_dirs_of fs project_dir names) \<Longrightarrow> \<exists>t. getmtime fs d = Some t"
  by (auto simp: sub_dirs_of_def isdir_def getmtime_def split: option.splits node.splits)

subsection \<open>The most recently modified run directory\<close>

lemma max_from_keeps:
  "\<forall>x\<in>set xs. \<exists>u. key x = Some u \<and> u \<le> kbest \<Longrightarrow> max_from key best kbest xs = Some best"
  by (induction xs) auto

lemma max_from_first_max:
  assumes "key d = Some t" and "kbest < t"
    and "\<forall>x\<in>set earlier. \<exists>u. key x = Some u \<and> u < t"
    and "\<forall>x\<in>set later. \<exists>u. key x = Some u \<and> u \<le> t"
  shows "max_from key best kbest (earlier @ d # later) = Some d"
  using assms
proof (induction earlier arbitrary: best kbest)
  case Nil
  then show ?case by (simp add: max_from_keeps)
next
  case (Cons x earlier)
  then obtain u where u: "key x = Some u" "u < t" by auto
  show ?case
  proof (cases "kbest < u")
    case True
    with u Cons.IH [of u x] Cons.prems show ?thesis by simp
  next
    case False
    with u Cons.IH [of kbest best] Cons.prems show ?thesis by simp
  qed
qed

lemma max_key_first_max:
  assumes "key d = Some t"
    and "\<forall>x\<in>set earlier. \<exists>u. key x = Some u \<and> u < t"
    and "\<forall>x\<in>set later. \<exists>u. key x = Some u \<and> u \<le> t"
  shows "max_key key (earlier @ d # later) = Some d"
proof (cases earlier)
  case Nil
  with assms show ?thesis by (simp add: max_from_keeps)
next
  case (Cons x rest)
  with assms(2) obtain u where u: "key x = Some u" "u < t" by auto
  from Cons assms(2) have rest: "\<forall>y\<in>set rest. \<exists>u. key y = Some u \<and> u < t" by simp
  from max_from_first_max [OF assms(1) u(2) rest assms(3)] u Cons show ?thesis by simp
qed

lemma find_latest_run_output_first_max:
  assumes "listdir fs (project_dir_of g) = Some names"
    and "sub_dirs_of fs (project_dir_of g) names = earlier @ d # later"
    and "getmtime fs d = Some t"
    and "\<forall>x\<in>set earlier. \<forall>u. getmtime fs x = Some u \<longrightarrow> u < t"
    and "\<forall>x\<in>set later. \<forall>u. getmtime fs x = Some u \<longrightarrow> u \<le> t"
    and "exists_path fs (join2 d image_name)"
  shows "find_latest_run_output fs (project_dir_of g) image_name = Some (join2 d image_name)"
proof -
  have e: "\<forall>x\<in>set earlier. \<exists>u. getmtime fs x = Some u \<and> u < t"
  proof
    fix x assume "x \<in> set earlier"
    then have "x \<in> set (sub_dirs_of fs (project_dir_of g) names)" using assms(2) by simp
    then obtain u where "getmtime fs x = Some u" using sub_dirs_of_mtime by blast
    with assms(4) \<open>x \<in> set earlier\<close> show "\<exists>u. getmtime fs x = Some u \<and> u < t" by blast
  qed
  have l: "\<forall>x\<in>set later. \<exists>u. getmtime fs x = Some u \<and> u \<le> t"
  proof
    fix x assume "x \<in> set later"
    then have "x \<in> set (sub_dirs_of fs (project_dir_of g) names)" using assms(2) by simp
    then obtain u where "getmtime fs x = Some u" using sub_dirs_of_mtime by blast
    with assms(5) \<open>x \<in> set later\<close> show "\<exists>u. getmtime fs x = Some u \<and> u \<le> t" by blast
  qed
  have "max_key (getmtime fs) (earlier @ d # later) = Some d"
    using max_key_first_max [OF assms(3) e l] .
  with assms(1,2,6) show ?thesis
    by (simp add: find_latest_run_output_def Let_def)
qed

subsection \<open>What the worker schedules\<close>

text \<open>
  Claim C2. When the tool exits with code 0 and the expected path
  \<open>yolov7_dir/runs/detect/GUI_exp/<base name of the source>\<close> exists, the worker schedules
  exactly one call, \<open>update_gui_post_detection\<close> with that path and \<open>success = True\<close>;
  the path is not empty, so the main loop takes it as a result.
\<close>

theorem detect_objects_expected_output:
  assumes "input_image_path g = Some src"
    and "subprocess_run (detect_command exe (weights_path g) src (project_dir_of g)) (yolov7_dir g)
           = Inr result"
    and "returncode result = 0"
    and "exists_path fs (expected_output g src)"
  shows "detect_objects subprocess_run exe fs g
           = [CallUpdateGuiPost (Some (expected_output g src)) True]
         \<and> expected_output g src = path_join (yolov7_dir g) [''runs'', ''detect'', ''GUI_exp'', basename src]
         \<and> expected_output g src \<noteq> []"
  using assms
  by (simp add: detect_objects_def detect_try_def Let_def expected_output_nonempty)
     (simp add: expected_output_def project_dir_of_def path_join_def)

theorem detect_objects_expected_output_witness:
  "input_image_path ex_gui = Some ''/home/u/cat.jpg''
   \<and> exists_path ex_fs_expected ''/app/yolov7/runs/detect/GUI_exp/cat.jpg''
   \<and> detect_objects ex_run_ok ''/usr/bin/python3'' ex_fs_expected ex_gui
       = [CallUpdateGuiPost (Some ''/app/yolov7/runs/detect/GUI_exp/cat.jpg'') True]"
proof -
  have h1: "input_image_path ex_gui = Some ''/home/u/cat.jpg''" by (simp add: ex_gui_def)
  have h3: "returncode \<lparr>returncode = 0, stdout = ''Done.'', stderr = []\<rparr> = 0" by simp
  have h4: "exists_path ex_fs_expected ''/app/yolov7/runs/detect/GUI_exp/cat.jpg''"
    by (simp add: exists_path_def ex_fs_expected_def ex_installed_def)
  have h4': "exists_path ex_fs_expected (expected_output ex_gui ''/home/u/cat.jpg'')"
    using h4 by (simp add: ex_expected_output)
  from detect_objects_expected_output
         [where subprocess_run = ex_run_ok and exe = "''/usr/bin/python3''" and g = ex_gui
            and fs = ex_fs_expected, OF h1 ex_run_ok_result h3 h4'] h1 h4
  show ?thesis by (simp add: ex_expected_output)
qed

text \<open>
  Claim C3. When the tool exits with code 0, the expected path does not exist, and the
  most recently modified subdirectory \<open>d\<close> of the project directory holds a file with the
  base name of the source, the worker schedules exactly one call,
  \<open>update_gui_post_detection\<close> with the path in \<open>d\<close> and \<open>success = True\<close>. Among several
  subdirectories the one with the greatest modification time is taken, the first listed
  among equally recent ones: those listed before \<open>d\<close> are older, those after it are not
  newer.
\<close>

theorem detect_objects_fallback_output:
  assumes "input_image_path g = Some src"
    and "subprocess_run (detect_command exe (weights_path g) src (project_dir_of g)) (yolov7_dir g)
           = Inr result"
    and "returncode result = 0"
    and "\<not> exists_path fs (expected_output g src)"
    and "listdir fs (project_dir_of g) = Some names"
    and "sub_dirs_of fs (project_dir_of g) names = earlier @ d # later"
    and "getmtime fs d = Some t"
    and "\<forall>x\<in>set earlier. \<forall>u. getmtime fs x = Some u \<longrightarrow> u < t"
    and "\<forall>x\<in>set later. \<forall>u. getmtime fs x = Some u \<longrightarrow> u \<le> t"
    and "exists_path fs (join2 d (basename src))"
  shows "detect_objects subprocess_run exe fs g
           = [CallUpdateGuiPost (Some (join2 d (basename src))) True]"
proof -
  have "find_latest_run_output fs (project_dir_of g) (basename src) = Some (join2 d (basename src))"
    using find_latest_run_output_first_max [OF assms(5-10)] .
  moreover have "d \<in> set (sub_dirs_of fs (project_dir_of g) names)" using assms(6) by simp
  then have "join2 d (basename src) \<noteq> []"
    using sub_dirs_of_nonempty join2_nonempty_left by blast
  ultimately show ?thesis using assms(1-4,10)
    by (simp add: detect_objects_def detect_try_def Let_def)
qed

theorem detect_objects_fallback_output_witness:
  "\<not> exists_path ex_fs_fallback ''/app/yolov7/runs/detect/GUI_exp/cat.jpg''
   \<and> getmtime ex_fs_fallback ''/app/yolov7/runs/detect/GUI_exp'' = Some 3
   \<and> getmtime ex_fs_fallback ''/app/yolov7/runs/detect/GUI_exp2'' = Some 9
   \<and> getmtime ex_fs_fallback ''/app/yolov7/runs/detect/GUI_exp3'' = Some 5
   \<and> detect_objects ex_run_ok ''/usr/bin/python3'' ex_fs_fallback ex_gui
       = [CallUpdateGuiPost (Some ''/app/yolov7/runs/detect/GUI_exp2/cat.jpg'') True]"
proof -
  have h1: "input_image_path ex_gui = Some ''/home/u/cat.jpg''" by (simp add: ex_gui_def)
  have h3: "returncode \<lparr>returncode = 0, stdout = ''Done.'', stderr = []\<rparr> = 0" by simp
  have n: "\<not> exists_path ex_fs_fallback ''/app/yolov7/runs/detect/GUI_exp/cat.jpg''"
    by (simp add: exists_path_def ex_fs_fallback_def ex_installed_def)
  then have h4: "\<not> exists_path ex_fs_fallback (expected_output ex_gui ''/home/u/cat.jpg'')"
    by (simp add: ex_expected_output)
  have h5: "listdir ex_fs_fallback (project_dir_of ex_gui)
     = Some [''GUI_exp'', ''notes.txt'', ''GUI_exp2'', ''GUI_exp3'']"
    by (simp add: ex_project_dir ex_listdir)
  have h6: "sub_dirs_of ex_fs_fallback (project_dir_of ex_gui)
     [''GUI_exp'', ''notes.txt'', ''GUI_exp2'', ''GUI_exp3'']
   = [''/app/yolov7/runs/detect/GUI_exp''] @ ''/app/yolov7/runs/detect/GUI_exp2''
       # [''/app/yolov7/runs/detect/GUI_exp3'']"
    by (simp only: ex_project_dir ex_sub_dirs)
  have m1: "getmtime ex_fs_fallback ''/app/yolov7/runs/detect/GUI_exp'' = Some 3"
    by (simp add: getmtime_def ex_fs_fallback_def ex_installed_def)
  have m2: "getmtime ex_fs_fallback ''/app/yolov7/runs/detect/GUI_exp2'' = Some 9"
    by (simp add: getmtime_def ex_fs_fallback_def ex_installed_def)
  have m3: "getmtime ex_fs_fallback ''/app/yolov7/runs/detect/GUI_exp3'' = Some 5"
    by (simp add: getmtime_def ex_fs_fallback_def ex_installed_def)
  have h8: "\<forall>x\<in>set [''/app/yolov7/runs/detect/GUI_exp'']. \<forall>u. getmtime ex_fs_fallback x = Some u \<longrightarrow> u < 9"
    using m1 by simp
  have h9: "\<forall>x\<in>set [''/app/yolov7/runs/detect/GUI_exp3'']. \<forall>u. getmtime ex_fs_fallback x = Some u \<longrightarrow> u \<le> 9"
    using m3 by simp
  have h10: "exists_path ex_fs_fallback (join2 ''/app/yolov7/runs/detect/GUI_exp2'' (basename ''/home/u/cat.jpg''))"
    by (simp add: ex_basename join2_def exists_path_def ex_fs_fallback_def ex_installed_def)
  have j: "join2 ''/app/yolov7/runs/detect/GUI_exp2'' (basename ''/home/u/cat.jpg'')
            = ''/app/yolov7/runs/detect/GUI_exp2/cat.jpg''"
    by (simp add: ex_basename join2_def)
  from detect_objects_fallback_output
         [where subprocess_run = ex_run_ok and exe = "''/usr/bin/python3''" and g = ex_gui
            and fs = ex_fs_fallback, OF h1 ex_run_ok_result h3 h4 h5 h6 m2 h8 h9 h10]
       n m1 m2 m3 j
  show ?thesis by simp
qed

lemma last_n_length: "length (last_n n xs) \<le> n"
  by (simp add: last_n_def)

lemma last_n_suffix: "suffix (last_n n xs) xs"
  by (simp add: last_n_def suffix_drop)

text \<open>
  Claim C4. When the tool exits with a code other than 0, the worker schedules one error
  message box whose text carries the exit code and, when anything was captured on standard
  error, its last lines joined by spaces: at most five of them, taken from the end.
\<close>

theorem detect_objects_nonzero_exit:
  assumes "input_image_path g = Some src"
    and "subprocess_run (detect_command exe (weights_path g) src (project_dir_of g)) (yolov7_dir g)
           = Inr result"
    and "returncode result \<noteq> 0"
  shows "detect_objects subprocess_run exe fs g =
           [CallShowError ''Detection Error''
              (''Object detection failed (detect.py exited with code '' @ str_int (returncode result)
               @ '').\<newline>\<newline>Check console/terminal output for details.\<newline>''
               @ (if stderr result = [] then []
                  else ''\<newline>Error details:\<newline>''
                       @ str_join '' '' (last_n 5 (splitlines (stderr result)))))]
         \<and> length (last_n 5 (splitlines (stderr result))) \<le> 5
         \<and> suffix (last_n 5 (splitlines (stderr result))) (splitlines (stderr result))"
  using assms
  by (simp add: detect_objects_def detect_try_def Let_def exit_code_message_def last_n_length last_n_suffix)

theorem detect_objects_nonzero_exit_witness:
  "length (splitlines ''a\<newline>b\<newline>c\<newline>d\<newline>e\<newline>f\<newline>RuntimeError: bad weights\<newline>'') = 7
   \<and> detect_objects ex_run_exit1 ''/usr/bin/python3'' ex_fs ex_gui =
       [CallShowError ''Detection Error''
          ''Object detection failed (detect.py exited with code 1).\<newline>\<newline>Check console/terminal output for details.\<newline>\<newline>Error details:\<newline>c d e f RuntimeError: bad weights'']"
proof -
  have h1: "input_image_path ex_gui = Some ''/home/u/cat.jpg''" by (simp add: ex_gui_def)
  have h2: "ex_run_exit1 (detect_command ''/usr/bin/python3'' (weights_path ex_gui) ''/home/u/cat.jpg''
              (project_dir_of ex_gui)) (yolov7_dir ex_gui)
            = Inr \<lparr>returncode = 1, stdout = [],
                   stderr = ''a\<newline>b\<newline>c\<newline>d\<newline>e\<newline>f\<newline>RuntimeError: bad weights\<newline>''\<rparr>"
    by (simp add: ex_run_exit1_def)
  have h3: "returncode \<lparr>returncode = 1, stdout = [],
                   stderr = ''a\<newline>b\<newline>c\<newline>d\<newline>e\<newline>f\<newline>RuntimeError: bad weights\<newline>''\<rparr> \<noteq> 0"
    by simp
  from detect_objects_nonzero_exit
         [where subprocess_run = ex_run_exit1 and exe = "''/usr/bin/python3''" and g = ex_gui
            and fs = ex_fs, OF h1 h2 h3]
  show ?thesis by (simp add: ex_splitlines last_n_def str_int_def)
qed

text \<open>The places where the body of the \<open>try\<close> raises.\<close>

lemma detect_try_raises:
  "detect_try subprocess_run exe fs g = Inl e \<longleftrightarrow>
     (input_image_path g = None
        \<and> e = OtherException ''TypeError'' ''expected str, bytes or os.PathLike object, not NoneType'')
     \<or> (\<exists>src. input_image_path g = Some src
           \<and> subprocess_run (detect_command exe (weights_path g) src (project_dir_of g)) (yolov7_dir g)
               = Inl e)"
  by (auto simp: detect_try_def Let_def split: option.splits sum.splits)

text \<open>
  Claim C9. Every exception raised in the body of the \<open>try\<close> of \<open>detect_objects\<close> is caught
  there: the method still returns, having scheduled an error message box with a diagnostic
  of the exception (the type name and text for one that is not \<open>FileNotFoundError\<close>) and
  the call \<open>update_gui_post_detection(None, False)\<close> that reports the failure to the
  window.
\<close>

theorem detect_objects_exception_reported:
  assumes "detect_try subprocess_run exe fs g = Inl e"
  shows "detect_objects subprocess_run exe fs g =
           [CallShowError ''Execution Error''
              (case e of
                 FileNotFoundError m \<Rightarrow>
                   ''File not found during detection: '' @ m @ ''.\<newline>''
                   @ ''Ensure '' @ quote @ exe @ quote @ '' is runnable and ''
                   @ quote @ ''detect.py'' @ quote @ '' exists in '' @ yolov7_dir g @ ''.''
               | OtherException t m \<Rightarrow>
                   ''An unexpected error occurred during detection:\<newline>'' @ t @ '': '' @ m),
            CallUpdateGuiPost None False]"
  using assms by (simp add: detect_objects_def split: exn.splits)

theorem detect_objects_exception_reported_witness:
  "detect_try ex_run_raises ''/usr/bin/python3'' ex_fs ex_gui
     = Inl (OtherException ''PermissionError'' ''[Errno 13] Permission denied'')
   \<and> detect_objects ex_run_raises ''/usr/bin/python3'' ex_fs ex_gui =
       [CallShowError ''Execution Error''
          ''An unexpected error occurred during detection:\<newline>PermissionError: [Errno 13] Permission denied'',
        CallUpdateGuiPost None False]"
proof -
  have h: "detect_try ex_run_raises ''/usr/bin/python3'' ex_fs ex_gui
     = Inl (OtherException ''PermissionError'' ''[Errno 13] Permission denied'')"
    by (simp add: detect_try_def ex_gui_def ex_run_raises_def Let_def)
  from detect_objects_exception_reported [OF h] h show ?thesis by simp
qed

subsection \<open>After the outcome: are the controls enabled again?\<close>

text \<open>
  \<open>update_gui_post_detection\<close> ends by enabling browse and reset, whatever it was given
  (``Re-enable buttons regardless of success/failure''). The controls come back exactly
  when the worker schedules it.
\<close>

lemma update_gui_post_detection_enables:
  "browse_button (fst (update_gui_post_detection tk output_path success g)) = NORMAL
   \<and> reset_button (fst (update_gui_post_detection tk output_path success g)) = NORMAL"
  by (simp add: update_gui_post_detection_def Let_def split: prod.splits option.splits)

lemma nonzero_exit_schedules_no_update:
  assumes "input_image_path g = Some src"
    and "subprocess_run (detect_command exe (weights_path g) src (project_dir_of g)) (yolov7_dir g)
           = Inr result"
    and "returncode result \<noteq> 0"
  shows "fst (run_callbacks tk (detect_objects subprocess_run exe fs g) g') = g'"
  using assms by (simp add: detect_objects_def detect_try_def Let_def)

lemma ex_exit1_scheduled:
  "detect_objects ex_run_exit1 ''/usr/bin/python3'' ex_fs
     (ex_gui\<lparr>detect_button := DISABLED, browse_button := DISABLED, reset_button := DISABLED,
              info_label := ''Detecting objects, please wait...'',
              result_image_label := empty_label\<rparr>) =
       [CallShowError ''Detection Error''
          ''Object detection failed (detect.py exited with code 1).\<newline>\<newline>Check console/terminal output for details.\<newline>\<newline>Error details:\<newline>c d e f RuntimeError: bad weights'']"
  by (simp add: detect_objects_def detect_try_def Let_def ex_gui_def ex_run_exit1_def
      exit_code_message_def ex_splitlines last_n_def str_int_def)

lemma ex_raises_scheduled:
  "detect_objects ex_run_raises ''/usr/bin/python3'' ex_fs
     (ex_gui\<lparr>detect_button := DISABLED, browse_button := DISABLED, reset_button := DISABLED,
              info_label := ''Detecting objects, please wait...'',
              result_image_label := empty_label\<rparr>) =
       [CallShowError ''Execution Error''
          ''An unexpected error occurred during detection:\<newline>PermissionError: [Errno 13] Permission denied'',
        CallUpdateGuiPost None False]"
  by (simp add: detect_objects_def detect_try_def Let_def ex_gui_def ex_run_raises_def)

text \<open>
  When the worker meets an exception, or finds no output, the scheduled call of
  \<open>update_gui_post_detection\<close> enables browse and reset again.
\<close>

lemma exception_round_enables_controls:
  "browse_button (fst (detection_round ex_fs ex_run_raises ''/usr/bin/python3'' ex_fs
                         (ex_toolkit (400, 300)) ex_gui)) = NORMAL
   \<and> reset_button (fst (detection_round ex_fs ex_run_raises ''/usr/bin/python3'' ex_fs
                          (ex_toolkit (400, 300)) ex_gui)) = NORMAL"
  by (simp add: detection_round_def ex_start ex_raises_scheduled update_gui_post_detection_def
      split: prod.splits)

text \<open>
  Claim C1 (the program departs from it). The claim: after every outcome of a started
  detection, a non-zero exit code included, browse and reset are enabled again. On the
  concrete installation, with a tool that exits with code 1, the branch for a non-zero
  exit code schedules the message box and returns without scheduling
  \<open>update_gui_post_detection\<close>: after the main loop has run everything the worker
  scheduled, browse, reset and detect are still disabled.
\<close>

theorem nonzero_exit_leaves_controls_disabled:
  "browse_button (fst (detection_round ex_fs ex_run_exit1 ''/usr/bin/python3'' ex_fs
                         (ex_toolkit (400, 300)) ex_gui)) = DISABLED
   \<and> reset_button (fst (detection_round ex_fs ex_run_exit1 ''/usr/bin/python3'' ex_fs
                          (ex_toolkit (400, 300)) ex_gui)) = DISABLED
   \<and> detect_button (fst (detection_round ex_fs ex_run_exit1 ''/usr/bin/python3'' ex_fs
                          (ex_toolkit (400, 300)) ex_gui)) = DISABLED"
  by (simp add: detection_round_def ex_start ex_exit1_scheduled)

end
